theory Spec2Isabelle
  imports Complex_Main
begin

section \<open>The fatigue monitor of automind.py\<close>

text \<open>
  A shallow embedding of \<^verbatim>\<open>src/automind.py\<close>: the class \<^verbatim>\<open>FatigueAnalyzer\<close>
  (its constructor, \<^verbatim>\<open>add_audio_data\<close> and \<^verbatim>\<open>update\<close>) and the event handling of
  \<^verbatim>\<open>DemoUI.run\<close>.

  Conventions of the model:
  \<^item> Python floats and the float32 samples of the audio buffer are real numbers: rounding is
    not modelled, so a statement about a mean or a sum is about the exact value.
  \<^item> \<^verbatim>\<open>time.time()\<close> and the draws of the module \<^verbatim>\<open>random\<close> are inputs: every call of
    \<^verbatim>\<open>update\<close> receives a record with the values these calls return during it.
  \<^item> The strings \<^verbatim>\<open>"NORMAL"\<close>, \<^verbatim>\<open>"WARNING"\<close>, \<^verbatim>\<open>"CRITICAL"\<close> and the six driver labels are
    datatypes.
  \<^item> The audio thread is sequentialised: its chunks arrive between two iterations of the
    main loop.
\<close>

subsection \<open>Constants (lines 24-29)\<close>

definition AUDIO_SAMPLE_RATE :: nat where
  "AUDIO_SAMPLE_RATE = 16000"

definition YAWN_COUNT_THRESHOLD :: int where
  "YAWN_COUNT_THRESHOLD = 3"

definition YAWN_ENERGY_THRESHOLD :: real where
  "YAWN_ENERGY_THRESHOLD = 2 / 100"

subsection \<open>State of the analyzer (lines 33-45)\<close>

datatype level = NORMAL | WARNING | CRITICAL

text \<open>
  The driver labels of lines 39, 88, 96 and 103, in the order they occur in the source:
  focused driving, slightly distracted, distracted, brief doze, dozing, severe dozing.
\<close>

datatype label = Focused | SlightlyDistracted | Distracted | BriefDoze | Dozing | SevereDozing

record FatigueAnalyzer =
  fatigue_level :: level
  yawn_count :: int
  last_update :: real
  steering_value :: real
  driver_state :: label
  audio_buffer :: "real list"
  last_alert_time :: real
  torque_history :: "real list"
  simulation_speed :: real

text \<open>
  The constructor; \<open>t0\<close> and \<open>t1\<close> are what the two calls of \<^verbatim>\<open>time.time()\<close> in it
  return (lines 37 and 42). The speech engine of line 41 is an external handle and has no
  field here; \<^verbatim>\<open>_voice_alert\<close>, its only user, is called nowhere.
\<close>

definition init :: "real \<Rightarrow> real \<Rightarrow> FatigueAnalyzer" where
  "init t0 t1 =
     \<lparr>fatigue_level = NORMAL, yawn_count = 0, last_update = t0, steering_value = 0,
      driver_state = Focused, audio_buffer = [], last_alert_time = t1,
      torque_history = [], simulation_speed = 1\<rparr>"

definition add_audio_data :: "real list \<Rightarrow> FatigueAnalyzer \<Rightarrow> FatigueAnalyzer" where
  "add_audio_data audio_data s = s\<lparr>audio_buffer := audio_buffer s @ audio_data\<rparr>"

subsection \<open>Library functions the analyzer calls\<close>

text \<open>\<^verbatim>\<open>collections.deque(maxlen=m).append(x)\<close>: append on the right, then drop the
  leftmost entry if the deque is longer than \<open>m\<close>.\<close>

definition deque_append :: "nat \<Rightarrow> 'a list \<Rightarrow> 'a \<Rightarrow> 'a list" where
  "deque_append m xs x = (let ys = xs @ [x] in if m < length ys then tl ys else ys)"

text \<open>\<^verbatim>\<open>random.uniform(a, b)\<close> is \<^verbatim>\<open>a + (b - a) * random()\<close>; \<open>u\<close> is the draw.\<close>

definition uniform :: "real \<Rightarrow> real \<Rightarrow> real \<Rightarrow> real" where
  "uniform a b u = a + (b - a) * u"

text \<open>\<^verbatim>\<open>random.choices([a, b], weights=[wa, wb])[0]\<close>: the draw \<open>r\<close> is scaled by the
  total weight and compared with the first cumulative weight.\<close>

definition choices2 :: "'a \<Rightarrow> 'a \<Rightarrow> real \<Rightarrow> real \<Rightarrow> real \<Rightarrow> 'a" where
  "choices2 a b wa wb r = (if r * (wa + wb) < wa then a else b)"

text \<open>\<^verbatim>\<open>np.mean(buf ** 2)\<close>.\<close>

definition mean_square :: "real list \<Rightarrow> real" where
  "mean_square buf = sum_list (map (\<lambda>x. x ^ 2) buf) / real (length buf)"

text \<open>Python's \<^verbatim>\<open>x % y\<close> on floats with \<open>y > 0\<close>: the remainder of floored division.\<close>

definition py_mod :: "real \<Rightarrow> real \<Rightarrow> real" where
  "py_mod x y = x - y * of_int \<lfloor>x / y\<rfloor>"

subsection \<open>One call of update (lines 60-118)\<close>

text \<open>
  What the environment returns during one call: \<open>now\<close> is \<^verbatim>\<open>time.time()\<close> at line 62,
  \<open>now_sim\<close> the later \<^verbatim>\<open>time.time()\<close> of line 87 or 92, \<open>rnd_random\<close> the
  \<^verbatim>\<open>random.random()\<close> of line 91 or 99, \<open>rnd_uniform\<close> the draw behind the one
  \<^verbatim>\<open>random.uniform\<close> call, \<open>rnd_choice\<close> the draw behind \<^verbatim>\<open>random.choices\<close>.
\<close>

record env =
  now :: real
  now_sim :: real
  rnd_random :: real
  rnd_uniform :: real
  rnd_choice :: real

text \<open>Lines 72-74: the energy of the buffer, computed only when at least three seconds
  of samples are buffered.\<close>

definition yawn_energy :: "FatigueAnalyzer \<Rightarrow> real option" where
  "yawn_energy s =
     (if AUDIO_SAMPLE_RATE * 3 \<le> length (audio_buffer s)
      then Some (mean_square (audio_buffer s)) else None)"

text \<open>Lines 71-82: yawn detection.\<close>

definition detect_yawn :: "FatigueAnalyzer \<Rightarrow> FatigueAnalyzer" where
  "detect_yawn s =
     (case yawn_energy s of
        None \<Rightarrow> s
      | Some energy \<Rightarrow>
          (if YAWN_ENERGY_THRESHOLD < energy then s\<lparr>yawn_count := yawn_count s + 1\<rparr> else s)
            \<lparr>audio_buffer := []\<rparr>)"

text \<open>Lines 84-106: the simulated steering wheel, and the record of its value.\<close>

definition simulate_steering :: "env \<Rightarrow> FatigueAnalyzer \<Rightarrow> FatigueAnalyzer" where
  "simulate_steering e s =
     (let s1 =
        (case fatigue_level s of
           NORMAL \<Rightarrow>
             s\<lparr>steering_value :=
                 sin (now_sim e * (15 / 10) * simulation_speed s) * (12 / 10)
                   + uniform (- (3 / 10)) (3 / 10) (rnd_uniform e),
               driver_state := choices2 Focused SlightlyDistracted 8 2 (rnd_choice e)\<rparr>
         | WARNING \<Rightarrow>
             s\<lparr>steering_value :=
                 (if rnd_random e < 7 / 10
                  then sin (now_sim e * (8 / 10) * simulation_speed s) * (8 / 10)
                         + uniform (- (2 / 10)) (2 / 10) (rnd_uniform e)
                  else uniform (- 2) 2 (rnd_uniform e)),
               driver_state := choices2 Distracted BriefDoze 7 3 (rnd_choice e)\<rparr>
         | CRITICAL \<Rightarrow>
             s\<lparr>steering_value :=
                 (if rnd_random e < 9 / 10 then 0 else uniform (- 3) 3 (rnd_uniform e)),
               driver_state := choices2 Dozing SevereDozing 6 4 (rnd_choice e)\<rparr>)
      in s1\<lparr>torque_history := deque_append 100 (torque_history s1) (steering_value s1)\<rparr>)"

text \<open>Lines 108-114: the decision.\<close>

definition decide_fatigue :: "FatigueAnalyzer \<Rightarrow> FatigueAnalyzer" where
  "decide_fatigue s =
     (if YAWN_COUNT_THRESHOLD + 1 \<le> yawn_count s then s\<lparr>fatigue_level := CRITICAL\<rparr>
      else if YAWN_COUNT_THRESHOLD \<le> yawn_count s then s\<lparr>fatigue_level := WARNING\<rparr>
      else s\<lparr>fatigue_level := NORMAL\<rparr>)"

text \<open>Lines 116-118: the reset of the count.\<close>

definition reset_yawn_count :: "real \<Rightarrow> FatigueAnalyzer \<Rightarrow> FatigueAnalyzer" where
  "reset_yawn_count current_time s =
     (if py_mod current_time 600 < 3 then s\<lparr>yawn_count := 0\<rparr> else s)"

text \<open>The state when the decision of line 109 is taken.\<close>

definition before_decision :: "env \<Rightarrow> FatigueAnalyzer \<Rightarrow> FatigueAnalyzer" where
  "before_decision e s = simulate_steering e (detect_yawn (s\<lparr>last_update := now e\<rparr>))"

definition update :: "env \<Rightarrow> FatigueAnalyzer \<Rightarrow> FatigueAnalyzer" where
  "update e s =
     (let current_time = now e in
      if current_time - last_update s < 3 then s
      else reset_yawn_count current_time (decide_fatigue (before_decision e s)))"

text \<open>A call of \<^verbatim>\<open>update\<close> executes when the rate limiter of line 65 lets it through.\<close>

definition executes :: "env \<Rightarrow> FatigueAnalyzer \<Rightarrow> bool" where
  "executes e s = (\<not> now e - last_update s < 3)"

subsection \<open>The main loop of DemoUI.run (lines 357-411)\<close>

datatype key = K_ESCAPE | K_SPACE | K_h | K_PLUS | K_EQUALS | K_MINUS | K_OTHER

datatype event = QUIT | KEYDOWN key | OTHER_EVENT

text \<open>The local variables of \<^verbatim>\<open>run\<close> that outlive an iteration, and the analyzer.\<close>

record DemoUI =
  running :: bool
  last_yawn_sim_time :: real
  analyzer :: FatigueAnalyzer

text \<open>Lines 359-361, after \<^verbatim>\<open>main\<close> has built the analyzer at the times \<open>t0\<close>
  and \<open>t1\<close>.\<close>

definition start_ui :: "real \<Rightarrow> real \<Rightarrow> DemoUI" where
  "start_ui t0 t1 = \<lparr>running = True, last_yawn_sim_time = 0, analyzer = init t0 t1\<rparr>"

text \<open>Lines 368-387: one event; \<open>current_time\<close> is read once per iteration (line 364).\<close>

definition handle_event :: "real \<Rightarrow> event \<Rightarrow> DemoUI \<Rightarrow> DemoUI" where
  "handle_event current_time ev ui =
     (case ev of
        QUIT \<Rightarrow> ui\<lparr>running := False\<rparr>
      | KEYDOWN k \<Rightarrow>
          (if k = K_ESCAPE then ui\<lparr>running := False\<rparr>
           else if k = K_SPACE then
             ui\<lparr>analyzer := (analyzer ui)
                  \<lparr>yawn_count := 0, fatigue_level := NORMAL, driver_state := Focused\<rparr>\<rparr>
           else if k = K_h \<and> 2 < current_time - last_yawn_sim_time ui then
             ui\<lparr>analyzer := (analyzer ui)\<lparr>yawn_count := yawn_count (analyzer ui) + 1\<rparr>,
                last_yawn_sim_time := current_time\<rparr>
           else if k = K_PLUS \<or> k = K_EQUALS then
             ui\<lparr>analyzer := (analyzer ui)
                  \<lparr>simulation_speed := min 3 (simulation_speed (analyzer ui) + 2 / 10)\<rparr>\<rparr>
           else if k = K_MINUS then
             ui\<lparr>analyzer := (analyzer ui)
                  \<lparr>simulation_speed := max (5 / 10) (simulation_speed (analyzer ui) - 2 / 10)\<rparr>\<rparr>
           else ui)
      | OTHER_EVENT \<Rightarrow> ui)"

text \<open>
  One iteration of the loop: the chunks the audio thread has delivered since the last
  one, the time of line 364, the pending events, and the environment of the call of
  \<^verbatim>\<open>update\<close> at line 390. Drawing reads the state and is left out.
\<close>

record frame =
  audio_in :: "real list list"
  frame_time :: real
  events :: "event list"
  tick :: env

definition run_frame :: "frame \<Rightarrow> DemoUI \<Rightarrow> DemoUI" where
  "run_frame f ui =
     (let ui0 = ui\<lparr>analyzer := foldl (\<lambda>a c. add_audio_data c a) (analyzer ui) (audio_in f)\<rparr>;
          ui1 = foldl (\<lambda>u ev. handle_event (frame_time f) ev u) ui0 (events f)
      in ui1\<lparr>analyzer := update (tick f) (analyzer ui1)\<rparr>)"

text \<open>The loop on a finite sequence of iterations; it stops where \<^verbatim>\<open>running\<close> is false
  at the head of an iteration.\<close>

fun run :: "frame list \<Rightarrow> DemoUI \<Rightarrow> DemoUI" where
  "run [] ui = ui"
| "run (f # fs) ui = (if running ui then run fs (run_frame f ui) else ui)"

text \<open>A sequence of calls of \<^verbatim>\<open>update\<close> alone.\<close>

definition updates :: "env list \<Rightarrow> FatigueAnalyzer \<Rightarrow> FatigueAnalyzer" where
  "updates es s = foldl (\<lambda>a e. update e a) s es"

text \<open>The range of the simulation speed that the loop maintains.\<close>

definition speed_ok :: "DemoUI \<Rightarrow> bool" where
  "speed_ok ui =
     (5 / 10 \<le> simulation_speed (analyzer ui) \<and> simulation_speed (analyzer ui) \<le> 3)"

text \<open>A call of \<^verbatim>\<open>update\<close> at time \<open>t\<close> in which every random draw is 0.\<close>

definition env_at :: "real \<Rightarrow> env" where
  "env_at t = \<lparr>now = t, now_sim = t, rnd_random = 0, rnd_uniform = 0, rnd_choice = 0\<rparr>"

section \<open>Properties\<close>

subsection \<open>What the parts of update leave alone\<close>

lemma before_decision_yawn_count:
  "yawn_count (before_decision e s) = yawn_count (detect_yawn s)"
  by (simp add: before_decision_def simulate_steering_def detect_yawn_def yawn_energy_def Let_def
      split: level.splits option.splits)

lemma update_audio_buffer:
  "executes e s \<Longrightarrow> audio_buffer (update e s) = audio_buffer (detect_yawn s)"
  by (simp add: executes_def update_def reset_yawn_count_def decide_fatigue_def
      before_decision_def simulate_steering_def detect_yawn_def yawn_energy_def Let_def
      split: level.splits option.splits)

lemma update_simulation_speed: "simulation_speed (update e s) = simulation_speed s"
  by (simp add: update_def reset_yawn_count_def decide_fatigue_def before_decision_def
      simulate_steering_def detect_yawn_def yawn_energy_def Let_def split: level.splits option.splits)

lemma update_torque_history:
  "torque_history (update e s) =
     (if executes e s then deque_append 100 (torque_history s) (steering_value (update e s))
      else torque_history s)"
  by (simp add: executes_def update_def reset_yawn_count_def decide_fatigue_def
      before_decision_def simulate_steering_def detect_yawn_def yawn_energy_def Let_def
      split: level.splits option.splits)

lemma add_audio_data_fields:
  "torque_history (foldl (\<lambda>a c. add_audio_data c a) s cs) = torque_history s"
  "simulation_speed (foldl (\<lambda>a c. add_audio_data c a) s cs) = simulation_speed s"
  by (induction cs arbitrary: s) (simp_all add: add_audio_data_def)

lemma handle_event_torque_history:
  "torque_history (analyzer (handle_event t ev ui)) = torque_history (analyzer ui)"
  by (simp add: handle_event_def split: event.splits)

lemma handle_events_torque_history:
  "torque_history (analyzer (foldl (\<lambda>u ev. handle_event t ev u) ui evs))
     = torque_history (analyzer ui)"
  by (induction evs arbitrary: ui) (simp_all add: handle_event_torque_history)

subsection \<open>The audio buffer\<close>

lemma yawn_energy_ready:
  "48000 \<le> length (audio_buffer s) \<Longrightarrow>
     yawn_energy s =
       Some (sum_list (map (\<lambda>x. x ^ 2) (audio_buffer s)) / real (length (audio_buffer s)))"
  by (simp add: yawn_energy_def AUDIO_SAMPLE_RATE_def mean_square_def)

lemma yawn_energy_not_ready:
  "length (audio_buffer s) < 48000 \<Longrightarrow> yawn_energy s = None"
  by (simp add: yawn_energy_def AUDIO_SAMPLE_RATE_def)

lemma detect_yawn_audio_buffer:
  "audio_buffer (detect_yawn s) =
     (if 48000 \<le> length (audio_buffer s) then [] else audio_buffer s)"
  by (simp add: detect_yawn_def yawn_energy_def AUDIO_SAMPLE_RATE_def)

lemma mean_square_replicate: "0 < n \<Longrightarrow> mean_square (replicate n c) = c ^ 2"
  by (simp add: mean_square_def sum_list_replicate)

subsection \<open>The bounded history\<close>

lemma deque_append_length: "length xs \<le> m \<Longrightarrow> length (deque_append m xs x) \<le> m"
  by (simp add: deque_append_def Let_def)

lemma deque_append_drop:
  "length xs \<le> m \<Longrightarrow> deque_append m xs x = drop (Suc (length xs) - m) (xs @ [x])"
proof (cases "length xs = m")
  case True
  then have "deque_append m xs x = tl (xs @ [x])"
    by (simp add: deque_append_def Let_def)
  also have "\<dots> = drop 1 (xs @ [x])"
    by (simp only: One_nat_def drop_Suc drop_0)
  finally show ?thesis using True by simp
next
  case False
  assume "length xs \<le> m"
  with False have "length xs < m" by simp
  then show ?thesis by (simp add: deque_append_def Let_def)
qed

lemma foldl_deque_append:
  "foldl (deque_append m) [] vs = drop (length vs - m) vs"
proof (induction vs rule: rev_induct)
  case Nil
  show ?case by simp
next
  case (snoc v vs)
  let ?k = "drop (length vs - m) vs"
  have len: "length ?k \<le> m" by simp
  have "foldl (deque_append m) [] (vs @ [v]) = deque_append m ?k v"
    by (simp add: snoc.IH)
  also have "\<dots> = drop (Suc (length ?k) - m) (?k @ [v])"
    using len by (rule deque_append_drop)
  also have "\<dots> = drop (length (vs @ [v]) - m) (vs @ [v])"
  proof (cases "length vs < m")
    case True
    then show ?thesis by simp
  next
    case False
    then have "length ?k = m" by simp
    then have "drop (Suc (length ?k) - m) (?k @ [v]) = drop 1 (?k @ [v])" by simp
    also have "\<dots> = drop 1 (drop (length vs - m) (vs @ [v]))" by simp
    also have "\<dots> = drop (1 + (length vs - m)) (vs @ [v])" by (simp only: drop_drop)
    also have "1 + (length vs - m) = length (vs @ [v]) - m" using False by simp
    finally show ?thesis .
  qed
  finally show ?case .
qed

lemma update_history_length:
  "length (torque_history s) \<le> 100 \<Longrightarrow> length (torque_history (update e s)) \<le> 100"
  by (simp add: update_torque_history deque_append_length)

lemma run_frame_history_length:
  "length (torque_history (analyzer ui)) \<le> 100 \<Longrightarrow>
     length (torque_history (analyzer (run_frame f ui))) \<le> 100"
  by (simp add: run_frame_def Let_def update_history_length handle_events_torque_history
      add_audio_data_fields)

lemma run_history_length:
  "length (torque_history (analyzer ui)) \<le> 100 \<Longrightarrow>
     length (torque_history (analyzer (run fs ui))) \<le> 100"
  by (induction fs arbitrary: ui) (simp_all add: run_frame_history_length)

subsection \<open>The simulation speed\<close>

lemma handle_event_speed_ok: "speed_ok ui \<Longrightarrow> speed_ok (handle_event t ev ui)"
  by (auto simp: speed_ok_def handle_event_def min_def max_def split: event.splits)

lemma handle_events_speed_ok:
  "speed_ok ui \<Longrightarrow> speed_ok (foldl (\<lambda>u ev. handle_event t ev u) ui evs)"
  by (induction evs arbitrary: ui) (simp_all add: handle_event_speed_ok)

lemma run_frame_speed_ok:
  assumes ok: "speed_ok ui"
  shows "speed_ok (run_frame f ui)"
proof -
  let ?ui0 = "ui\<lparr>analyzer := foldl (\<lambda>a c. add_audio_data c a) (analyzer ui) (audio_in f)\<rparr>"
  have "speed_ok ?ui0"
    using ok by (simp add: speed_ok_def add_audio_data_fields)
  then have "speed_ok (foldl (\<lambda>u ev. handle_event (frame_time f) ev u) ?ui0 (events f))"
    by (rule handle_events_speed_ok)
  then show ?thesis
    by (simp add: run_frame_def Let_def speed_ok_def update_simulation_speed)
qed

lemma run_speed_ok: "speed_ok ui \<Longrightarrow> speed_ok (run fs ui)"
  by (induction fs arbitrary: ui) (simp_all add: run_frame_speed_ok)

subsection \<open>The yawn count and the level after a call of update\<close>

lemma detect_yawn_count:
  "yawn_count (detect_yawn s) =
     (case yawn_energy s of
        None \<Rightarrow> yawn_count s
      | Some en \<Rightarrow> if 2 / 100 < en then yawn_count s + 1 else yawn_count s)"
  by (simp add: detect_yawn_def YAWN_ENERGY_THRESHOLD_def split: option.splits)

lemma update_yawn_count:
  "executes e s \<Longrightarrow>
     yawn_count (update e s) =
       (if py_mod (now e) 600 < 3 then 0 else yawn_count (detect_yawn s))"
  by (simp add: executes_def update_def reset_yawn_count_def decide_fatigue_def Let_def
      before_decision_yawn_count)

lemma update_fatigue_level:
  "executes e s \<Longrightarrow>
     fatigue_level (update e s) =
       (if 4 \<le> yawn_count (detect_yawn s) then CRITICAL
        else if 3 \<le> yawn_count (detect_yawn s) then WARNING else NORMAL)"
  by (simp add: executes_def update_def reset_yawn_count_def decide_fatigue_def Let_def
      before_decision_yawn_count YAWN_COUNT_THRESHOLD_def)

lemma update_last_update: "executes e s \<Longrightarrow> last_update (update e s) = now e"
  by (simp add: executes_def update_def reset_yawn_count_def decide_fatigue_def
      before_decision_def simulate_steering_def detect_yawn_def yawn_energy_def Let_def
      split: level.splits option.splits)

lemma update_not_executed: "\<not> executes e s \<Longrightarrow> update e s = s"
  by (simp add: executes_def update_def)

lemma update_yawn_count_cases:
  "yawn_count (update e s) = 0 \<or> yawn_count (update e s) = yawn_count s
     \<or> yawn_count (update e s) = yawn_count s + 1"
proof (cases "executes e s")
  case True
  then show ?thesis
    by (simp add: update_yawn_count detect_yawn_count split: option.splits)
next
  case False
  then show ?thesis by (simp add: update_not_executed)
qed

subsection \<open>Between two calls that execute\<close>

lemma updates_rate_limited:
  "\<forall>e' \<in> set es. now e' - last_update s < 3 \<Longrightarrow> updates es s = s"
  by (induction es) (simp_all add: updates_def update_def)

lemma add_audio_data_keeps:
  "yawn_count (foldl (\<lambda>a c. add_audio_data c a) s cs) = yawn_count s"
  "fatigue_level (foldl (\<lambda>a c. add_audio_data c a) s cs) = fatigue_level s"
  "last_update (foldl (\<lambda>a c. add_audio_data c a) s cs) = last_update s"
  by (induction cs arbitrary: s) (simp_all add: add_audio_data_def)

lemma quiet_frame:
  assumes "events f = []" and "now (tick f) - last_update (analyzer ui) < 3"
  shows "yawn_count (analyzer (run_frame f ui)) = yawn_count (analyzer ui)"
    and "fatigue_level (analyzer (run_frame f ui)) = fatigue_level (analyzer ui)"
    and "last_update (analyzer (run_frame f ui)) = last_update (analyzer ui)"
  using assms by (simp_all add: run_frame_def Let_def update_def add_audio_data_keeps)

lemma quiet_run:
  "\<forall>f \<in> set fs. events f = [] \<and> now (tick f) - last_update (analyzer ui) < 3 \<Longrightarrow>
     yawn_count (analyzer (run fs ui)) = yawn_count (analyzer ui)
     \<and> fatigue_level (analyzer (run fs ui)) = fatigue_level (analyzer ui)"
proof (induction fs arbitrary: ui)
  case Nil
  show ?case by simp
next
  case (Cons f fs)
  have f: "events f = []" "now (tick f) - last_update (analyzer ui) < 3"
    using Cons.prems by simp_all
  have "\<forall>g \<in> set fs.
          events g = [] \<and> now (tick g) - last_update (analyzer (run_frame f ui)) < 3"
    using Cons.prems by (simp add: quiet_frame(3) [OF f])
  from Cons.IH [OF this] show ?case
    by (simp add: quiet_frame [OF f])
qed

section \<open>The claims\<close>

text \<open>
  C1. After a call of \<^verbatim>\<open>update\<close> that executes, the fatigue level is a function of the
  yawn count at the decision of line 109 (the count after the audio step): CRITICAL if
  it is at least 4, otherwise WARNING if it is at least 3, otherwise NORMAL, the test for
  CRITICAL coming first.
\<close>

theorem C1_level_from_yawn_count:
  assumes "executes e s"
  shows "fatigue_level (update e s) =
           (if 4 \<le> yawn_count (before_decision e s) then CRITICAL
            else if 3 \<le> yawn_count (before_decision e s) then WARNING
            else NORMAL)
         \<and> yawn_count (before_decision e s) = yawn_count (detect_yawn s)"
  using assms
  by (simp add: executes_def update_def decide_fatigue_def reset_yawn_count_def
      YAWN_COUNT_THRESHOLD_def Let_def before_decision_yawn_count)

theorem C1_level_from_yawn_count_witness:
  "executes (env_at 10) ((init 0 0)\<lparr>yawn_count := 5\<rparr>)
   \<and> fatigue_level (update (env_at 10) ((init 0 0)\<lparr>yawn_count := 5\<rparr>)) = CRITICAL
   \<and> executes (env_at 10) ((init 0 0)\<lparr>yawn_count := 3\<rparr>)
   \<and> fatigue_level (update (env_at 10) ((init 0 0)\<lparr>yawn_count := 3\<rparr>)) = WARNING
   \<and> executes (env_at 10) ((init 0 0)\<lparr>yawn_count := 2\<rparr>)
   \<and> fatigue_level (update (env_at 10) ((init 0 0)\<lparr>yawn_count := 2\<rparr>)) = NORMAL"
proof -
  have ex: "executes (env_at 10) ((init 0 0)\<lparr>yawn_count := n\<rparr>)" for n
    by (simp add: executes_def env_at_def init_def)
  have yc: "yawn_count (detect_yawn ((init 0 0)\<lparr>yawn_count := n\<rparr>)) = n" for n
    by (simp add: detect_yawn_def yawn_energy_def AUDIO_SAMPLE_RATE_def init_def)
  show ?thesis
    using C1_level_from_yawn_count [OF ex [of 5]] C1_level_from_yawn_count [OF ex [of 3]]
      C1_level_from_yawn_count [OF ex [of 2]]
    by (simp add: ex yc)
qed

text \<open>
  C2. When the buffer holds at least 48000 samples (three seconds at 16 kHz), the audio
  step computes the mean of the squares of all the samples of the buffer, and the buffer
  is empty after it, and so after the call of \<^verbatim>\<open>update\<close> that executes it. When the
  buffer holds fewer samples, no energy is computed and the buffer is as it was.
\<close>

theorem C2_energy_drain:
  "(48000 \<le> length (audio_buffer s) \<longrightarrow>
      yawn_energy s =
        Some (sum_list (map (\<lambda>x. x ^ 2) (audio_buffer s)) / real (length (audio_buffer s)))
      \<and> audio_buffer (detect_yawn s) = []
      \<and> (executes e s \<longrightarrow> audio_buffer (update e s) = []))
   \<and> (length (audio_buffer s) < 48000 \<longrightarrow>
      yawn_energy s = None
      \<and> audio_buffer (detect_yawn s) = audio_buffer s
      \<and> audio_buffer (update e s) = audio_buffer s)"
proof (intro conjI impI)
  assume "48000 \<le> length (audio_buffer s)"
  then show "yawn_energy s =
      Some (sum_list (map (\<lambda>x. x ^ 2) (audio_buffer s)) / real (length (audio_buffer s)))"
    by (rule yawn_energy_ready)
next
  assume "48000 \<le> length (audio_buffer s)"
  then show "audio_buffer (detect_yawn s) = []"
    by (simp add: detect_yawn_audio_buffer)
next
  assume "48000 \<le> length (audio_buffer s)" and "executes e s"
  then show "audio_buffer (update e s) = []"
    by (simp add: update_audio_buffer detect_yawn_audio_buffer)
next
  assume "length (audio_buffer s) < 48000"
  then show "yawn_energy s = None"
    by (rule yawn_energy_not_ready)
next
  assume "length (audio_buffer s) < 48000"
  then show "audio_buffer (detect_yawn s) = audio_buffer s"
    by (simp add: detect_yawn_audio_buffer)
next
  assume short: "length (audio_buffer s) < 48000"
  show "audio_buffer (update e s) = audio_buffer s"
  proof (cases "executes e s")
    case True
    with short show ?thesis
      by (simp add: update_audio_buffer detect_yawn_audio_buffer)
  next
    case False
    then show ?thesis
      by (simp add: executes_def update_def)
  qed
qed

theorem C2_energy_drain_witness:
  "48000 \<le> length (audio_buffer ((init 0 0)\<lparr>audio_buffer := replicate 56000 (1 / 2)\<rparr>))
   \<and> executes (env_at 10) ((init 0 0)\<lparr>audio_buffer := replicate 56000 (1 / 2)\<rparr>)
   \<and> yawn_energy ((init 0 0)\<lparr>audio_buffer := replicate 56000 (1 / 2)\<rparr>) = Some (1 / 4)
   \<and> audio_buffer (update (env_at 10) ((init 0 0)\<lparr>audio_buffer := replicate 56000 (1 / 2)\<rparr>)) = []
   \<and> length (audio_buffer ((init 0 0)\<lparr>audio_buffer := [1 / 2, 1]\<rparr>)) < 48000
   \<and> yawn_energy ((init 0 0)\<lparr>audio_buffer := [1 / 2, 1]\<rparr>) = None
   \<and> audio_buffer (update (env_at 10) ((init 0 0)\<lparr>audio_buffer := [1 / 2, 1]\<rparr>)) = [1 / 2, 1]"
proof -
  have ex: "executes (env_at 10) ((init 0 0)\<lparr>audio_buffer := b\<rparr>)" for b
    by (simp add: executes_def env_at_def init_def)
  show ?thesis
    using C2_energy_drain [of "(init 0 0)\<lparr>audio_buffer := replicate 56000 (1 / 2)\<rparr>" "env_at 10"]
      C2_energy_drain [of "(init 0 0)\<lparr>audio_buffer := [1 / 2, 1]\<rparr>" "env_at 10"]
    by (simp add: ex sum_list_replicate power2_eq_square)
qed

text \<open>
  C3. The audio step adds exactly 1 to the yawn count when an energy was computed and is
  strictly greater than 0.02, and leaves the count as it was otherwise. A call of
  \<^verbatim>\<open>update\<close> that executes ends with that count, or with 0 when the reset of line 117
  fires; so a call never adds more than 1 to a count that is not negative, however
  much audio is buffered. A buffer of 3.5 seconds of zeros (56000 samples) has energy 0
  and leaves the count as it was.
\<close>

theorem C3_one_yawn_per_tick:
  "((\<exists>en. yawn_energy s = Some en \<and> 2 / 100 < en) \<longrightarrow>
      yawn_count (detect_yawn s) = yawn_count s + 1)
   \<and> (\<not> (\<exists>en. yawn_energy s = Some en \<and> 2 / 100 < en) \<longrightarrow>
      yawn_count (detect_yawn s) = yawn_count s)
   \<and> (executes e s \<longrightarrow>
      yawn_count (update e s) =
        (if py_mod (now e) 600 < 3 then 0 else yawn_count (detect_yawn s)))
   \<and> (0 \<le> yawn_count s \<longrightarrow> yawn_count (update e s) \<le> yawn_count s + 1)
   \<and> (audio_buffer s = replicate 56000 0 \<longrightarrow>
      yawn_energy s = Some 0 \<and> yawn_count (detect_yawn s) = yawn_count s)"
proof (intro conjI impI)
  assume "\<exists>en. yawn_energy s = Some en \<and> 2 / 100 < en"
  then show "yawn_count (detect_yawn s) = yawn_count s + 1"
    by (auto simp: detect_yawn_count)
next
  assume "\<not> (\<exists>en. yawn_energy s = Some en \<and> 2 / 100 < en)"
  then show "yawn_count (detect_yawn s) = yawn_count s"
    by (simp add: detect_yawn_count split: option.splits)
next
  assume "executes e s"
  then show "yawn_count (update e s) =
      (if py_mod (now e) 600 < 3 then 0 else yawn_count (detect_yawn s))"
    by (rule update_yawn_count)
next
  assume "0 \<le> yawn_count s"
  then show "yawn_count (update e s) \<le> yawn_count s + 1"
    using update_yawn_count_cases [of e s] by auto
next
  assume "audio_buffer s = replicate 56000 0"
  then show e0: "yawn_energy s = Some 0"
    by (simp add: yawn_energy_def AUDIO_SAMPLE_RATE_def mean_square_replicate)
  then show "yawn_count (detect_yawn s) = yawn_count s"
    by (simp add: detect_yawn_count)
qed

theorem C3_one_yawn_per_tick_witness:
  "yawn_energy ((init 0 0)\<lparr>audio_buffer := replicate 56000 (1 / 2)\<rparr>) = Some (1 / 4)
   \<and> 2 / 100 < (1 / 4 :: real)
   \<and> executes (env_at 10) ((init 0 0)\<lparr>audio_buffer := replicate 56000 (1 / 2)\<rparr>)
   \<and> 0 \<le> yawn_count ((init 0 0)\<lparr>audio_buffer := replicate 56000 (1 / 2)\<rparr>)
   \<and> yawn_count (detect_yawn ((init 0 0)\<lparr>audio_buffer := replicate 56000 (1 / 2)\<rparr>)) = 1
   \<and> yawn_count (update (env_at 10) ((init 0 0)\<lparr>audio_buffer := replicate 56000 (1 / 2)\<rparr>)) = 1
   \<and> audio_buffer ((init 0 0)\<lparr>audio_buffer := replicate 56000 0\<rparr>) = replicate 56000 0
   \<and> yawn_energy ((init 0 0)\<lparr>audio_buffer := replicate 56000 0\<rparr>) = Some 0
   \<and> yawn_count (detect_yawn ((init 0 0)\<lparr>audio_buffer := replicate 56000 0\<rparr>)) = 0
   \<and> yawn_energy ((init 0 0)\<lparr>audio_buffer := [1]\<rparr>) = None
   \<and> yawn_count (detect_yawn ((init 0 0)\<lparr>audio_buffer := [1]\<rparr>)) = 0"
proof -
  let ?loud = "(init 0 0)\<lparr>audio_buffer := replicate 56000 (1 / 2)\<rparr>"
  let ?silent = "(init 0 0)\<lparr>audio_buffer := replicate 56000 0\<rparr>"
  let ?short = "(init 0 0)\<lparr>audio_buffer := [1]\<rparr>"
  have yc: "yawn_count ((init 0 0)\<lparr>audio_buffer := b\<rparr>) = 0" for b
    by (simp add: init_def)
  have ex: "executes (env_at 10) ?loud"
    by (simp add: executes_def env_at_def init_def)
  have m: "\<not> py_mod (now (env_at 10)) 600 < 3"
    by (simp add: py_mod_def env_at_def)
  have en: "yawn_energy ?loud = Some (1 / 4)"
    by (simp add: yawn_energy_def AUDIO_SAMPLE_RATE_def mean_square_replicate
        power2_eq_square)
  have gt: "2 / 100 < (1 / 4 :: real)"
    by simp
  from en gt have loud: "\<exists>en. yawn_energy ?loud = Some en \<and> 2 / 100 < en"
    by (intro exI conjI)
  have none: "yawn_energy ?short = None"
    by (simp add: yawn_energy_def AUDIO_SAMPLE_RATE_def)
  then have short: "\<not> (\<exists>en. yawn_energy ?short = Some en \<and> 2 / 100 < en)"
    by simp
  have zeros: "audio_buffer ?silent = replicate 56000 0"
    by simp
  from C3_one_yawn_per_tick [of ?loud "env_at 10"] loud
  have a: "yawn_count (detect_yawn ?loud) = yawn_count ?loud + 1"
    by blast
  from C3_one_yawn_per_tick [of ?loud "env_at 10"] ex
  have "yawn_count (update (env_at 10) ?loud) =
          (if py_mod (now (env_at 10)) 600 < 3 then 0 else yawn_count (detect_yawn ?loud))"
    by blast
  with m have b: "yawn_count (update (env_at 10) ?loud) = yawn_count (detect_yawn ?loud)"
    by simp
  from C3_one_yawn_per_tick [of ?silent "env_at 10"] zeros
  have c: "yawn_energy ?silent = Some 0
           \<and> yawn_count (detect_yawn ?silent) = yawn_count ?silent"
    by blast
  from C3_one_yawn_per_tick [of ?short "env_at 10"] short
  have d: "yawn_count (detect_yawn ?short) = yawn_count ?short"
    by blast
  show ?thesis
    using en gt ex a b zeros c none d by (simp only: yc) simp
qed

text \<open>
  C4. A call of \<^verbatim>\<open>update\<close> less than three seconds after the last call that executed
  (or after the construction of the analyzer) returns the state it was given: no field
  has changed.
\<close>

theorem C4_rate_limited_noop:
  assumes "now e - last_update s < 3"
  shows "update e s = s"
  using assms by (simp add: update_def)

theorem C4_rate_limited_noop_witness:
  "now (env_at 2) - last_update (init 0 0) < 3 \<and> update (env_at 2) (init 0 0) = init 0 0"
proof -
  have h: "now (env_at 2) - last_update (init 0 0) < 3"
    by (simp add: env_at_def init_def)
  show ?thesis
    using h C4_rate_limited_noop [OF h] by simp
qed

text \<open>
  C5. The reset of lines 116-118 is meant to happen once in every period of 600 seconds.
  It happens only in a call that executes at a time whose remainder modulo 600 is below
  3. Here a call executes at 599.99, the calls at 601.50 and 602.98 are held back by the
  rate limiter, and the next call executes at 603.01: no call resets the count, which
  is still 2 after the window from 600 to 603 has passed.
\<close>

theorem C5_reset_skipped:
  "executes (env_at (59999 / 100)) ((init (59699 / 100) (59699 / 100))\<lparr>yawn_count := 2\<rparr>)
   \<and> \<not> executes (env_at (1203 / 2))
         (update (env_at (59999 / 100)) ((init (59699 / 100) (59699 / 100))\<lparr>yawn_count := 2\<rparr>))
   \<and> \<not> executes (env_at (30149 / 50))
         (update (env_at (59999 / 100)) ((init (59699 / 100) (59699 / 100))\<lparr>yawn_count := 2\<rparr>))
   \<and> executes (env_at (60301 / 100))
         (update (env_at (59999 / 100)) ((init (59699 / 100) (59699 / 100))\<lparr>yawn_count := 2\<rparr>))
   \<and> yawn_count
       (updates
          [env_at (59999 / 100), env_at (1203 / 2), env_at (30149 / 50), env_at (60301 / 100)]
          ((init (59699 / 100) (59699 / 100))\<lparr>yawn_count := 2\<rparr>)) = 2
   \<and> last_update
       (updates
          [env_at (59999 / 100), env_at (1203 / 2), env_at (30149 / 50), env_at (60301 / 100)]
          ((init (59699 / 100) (59699 / 100))\<lparr>yawn_count := 2\<rparr>)) = 60301 / 100"
  by (simp add: updates_def update_def executes_def env_at_def init_def py_mod_def Let_def
      reset_yawn_count_def decide_fatigue_def before_decision_def simulate_steering_def
      detect_yawn_def yawn_energy_def AUDIO_SAMPLE_RATE_def YAWN_COUNT_THRESHOLD_def)

text \<open>
  C6. The steering history is a deque of capacity 100. Appending the values \<open>vs\<close> to the
  empty history of the constructor leaves the last 100 of them in the order of insertion
  (all of them when there are at most 100): the oldest are dropped. A call of
  \<^verbatim>\<open>update\<close> that executes appends its steering value in this way, and at no point
  of the main loop does the history hold more than 100 entries.
\<close>

theorem C6_history_bounded:
  "foldl (deque_append 100) (torque_history (init t0 t1)) vs = drop (length vs - 100) vs
   \<and> length (foldl (deque_append 100) (torque_history (init t0 t1)) vs) = min 100 (length vs)
   \<and> torque_history (update e s) =
       (if executes e s then deque_append 100 (torque_history s) (steering_value (update e s))
        else torque_history s)
   \<and> length (torque_history (analyzer (run fs (start_ui t0 t1)))) \<le> 100"
proof (intro conjI)
  show eq: "foldl (deque_append 100) (torque_history (init t0 t1)) vs = drop (length vs - 100) vs"
    by (simp add: init_def foldl_deque_append)
  show "length (foldl (deque_append 100) (torque_history (init t0 t1)) vs) = min 100 (length vs)"
    by (simp only: eq) simp
  show "torque_history (update e s) =
       (if executes e s then deque_append 100 (torque_history s) (steering_value (update e s))
        else torque_history s)"
    by (rule update_torque_history)
  have "length (torque_history (analyzer (start_ui t0 t1))) \<le> 100"
    by (simp add: start_ui_def init_def)
  then show "length (torque_history (analyzer (run fs (start_ui t0 t1)))) \<le> 100"
    by (rule run_history_length)
qed

text \<open>
  C7. The simulation speed starts at 1. A key that increases it adds 0.2 and caps the
  result at 3; the key that decreases it subtracts 0.2 and keeps the result at 0.5 or
  more. After any run of the main loop, whatever the events, the speed lies between 0.5
  and 3; an increase never takes it above 3 and a decrease never takes it below 0.5,
  from any state.
\<close>

theorem C7_speed_clamped:
  "simulation_speed (analyzer (start_ui t0 t1)) = 1
   \<and> simulation_speed (analyzer (handle_event t (KEYDOWN K_PLUS) ui))
       = min 3 (simulation_speed (analyzer ui) + 2 / 10)
   \<and> simulation_speed (analyzer (handle_event t (KEYDOWN K_EQUALS) ui))
       = min 3 (simulation_speed (analyzer ui) + 2 / 10)
   \<and> simulation_speed (analyzer (handle_event t (KEYDOWN K_MINUS) ui))
       = max (5 / 10) (simulation_speed (analyzer ui) - 2 / 10)
   \<and> 5 / 10 \<le> simulation_speed (analyzer (run fs (start_ui t0 t1)))
   \<and> simulation_speed (analyzer (run fs (start_ui t0 t1))) \<le> 3
   \<and> simulation_speed (analyzer (handle_event t (KEYDOWN K_PLUS) ui)) \<le> 3
   \<and> simulation_speed (analyzer (handle_event t (KEYDOWN K_EQUALS) ui)) \<le> 3
   \<and> 5 / 10 \<le> simulation_speed (analyzer (handle_event t (KEYDOWN K_MINUS) ui))"
proof -
  have "speed_ok (start_ui t0 t1)"
    by (simp add: speed_ok_def start_ui_def init_def)
  then have "speed_ok (run fs (start_ui t0 t1))"
    by (rule run_speed_ok)
  then show ?thesis
    by (simp add: speed_ok_def start_ui_def init_def handle_event_def)
qed

text \<open>
  C8. The reset command (the space key) gives a state whose yawn count is 0 and whose
  fatigue level is NORMAL, whatever the state before.
\<close>

theorem C8_reset_command:
  "yawn_count (analyzer (handle_event t (KEYDOWN K_SPACE) ui)) = 0
   \<and> fatigue_level (analyzer (handle_event t (KEYDOWN K_SPACE) ui)) = NORMAL"
  by (simp add: handle_event_def)

text \<open>
  C9. The forced-yawn key is accepted when more than 2 seconds have passed since the last
  accepted one: it adds exactly 1 to the yawn count and records the time. Within 2
  seconds of the last accepted one it changes nothing, so a second press within 2
  seconds of an accepted press is dropped. Whether it is accepted does not depend on
  \<^verbatim>\<open>last_update\<close>, the state of the rate limiter of \<^verbatim>\<open>update\<close>: in an iteration
  whose call of \<^verbatim>\<open>update\<close> is held back, an accepted press still adds 1.
\<close>

theorem C9_forced_yawn:
  "(2 < t - last_yawn_sim_time ui \<longrightarrow>
      yawn_count (analyzer (handle_event t (KEYDOWN K_h) ui)) = yawn_count (analyzer ui) + 1
      \<and> last_yawn_sim_time (handle_event t (KEYDOWN K_h) ui) = t)
   \<and> (t - last_yawn_sim_time ui \<le> 2 \<longrightarrow> handle_event t (KEYDOWN K_h) ui = ui)
   \<and> (2 < t - last_yawn_sim_time ui \<and> t' - t \<le> 2 \<longrightarrow>
      handle_event t' (KEYDOWN K_h) (handle_event t (KEYDOWN K_h) ui)
        = handle_event t (KEYDOWN K_h) ui)
   \<and> handle_event t (KEYDOWN K_h) (ui\<lparr>analyzer := (analyzer ui)\<lparr>last_update := lu\<rparr>\<rparr>)
       = (handle_event t (KEYDOWN K_h) ui)
           \<lparr>analyzer := (analyzer (handle_event t (KEYDOWN K_h) ui))\<lparr>last_update := lu\<rparr>\<rparr>
   \<and> (audio_in f = [] \<and> events f = [KEYDOWN K_h] \<and> 2 < frame_time f - last_yawn_sim_time ui
        \<and> now (tick f) - last_update (analyzer ui) < 3 \<longrightarrow>
      yawn_count (analyzer (run_frame f ui)) = yawn_count (analyzer ui) + 1
      \<and> last_yawn_sim_time (run_frame f ui) = frame_time f)"
  by (simp add: handle_event_def run_frame_def update_def Let_def)

theorem C9_forced_yawn_witness:
  "2 < 5 - last_yawn_sim_time (start_ui 0 0) \<and> (6::real) - 5 \<le> 2
   \<and> yawn_count (analyzer (handle_event 5 (KEYDOWN K_h) (start_ui 0 0))) = 1
   \<and> last_yawn_sim_time (handle_event 5 (KEYDOWN K_h) (start_ui 0 0)) = 5
   \<and> handle_event 6 (KEYDOWN K_h) (handle_event 5 (KEYDOWN K_h) (start_ui 0 0))
       = handle_event 5 (KEYDOWN K_h) (start_ui 0 0)
   \<and> 1 - last_yawn_sim_time (start_ui 0 0) \<le> 2
   \<and> handle_event 1 (KEYDOWN K_h) (start_ui 0 0) = start_ui 0 0
   \<and> now (env_at 1) - last_update (analyzer (start_ui 0 0)) < 3
   \<and> yawn_count (analyzer (run_frame
        \<lparr>audio_in = [], frame_time = 5, events = [KEYDOWN K_h], tick = env_at 1\<rparr>
        (start_ui 0 0))) = 1"
proof -
  let ?f = "\<lparr>audio_in = [], frame_time = 5, events = [KEYDOWN K_h], tick = env_at 1\<rparr>"
  have acc: "2 < 5 - last_yawn_sim_time (start_ui 0 0)"
    by (simp add: start_ui_def)
  have rej: "1 - last_yawn_sim_time (start_ui 0 0) \<le> 2"
    by (simp add: start_ui_def)
  have lim: "now (env_at 1) - last_update (analyzer (start_ui 0 0)) < 3"
    by (simp add: start_ui_def init_def env_at_def)
  have yc: "yawn_count (analyzer (start_ui 0 0)) = 0"
    by (simp add: start_ui_def init_def)
  show ?thesis
    using C9_forced_yawn [of 5 "start_ui 0 0" 6 0 ?f] C9_forced_yawn [of 1 "start_ui 0 0"]
      acc rej lim yc
    by simp
qed

text \<open>
  C10. In a call of \<^verbatim>\<open>update\<close> that executes, the level is decided from the yawn count
  before the reset of line 117 is tried. So when the reset fires and the count at the
  decision is at least 3, the call ends with a count of 0 and a level of WARNING or
  CRITICAL. The state stays so through every later call that the rate limiter holds
  back, and the count and the level stay so through every iteration of the main loop
  that has no event and whose call is held back.
\<close>

theorem C10_level_decided_before_reset:
  assumes ex: "executes e s" and fire: "py_mod (now e) 600 < 3"
    and yc: "3 \<le> yawn_count (before_decision e s)"
  shows "reset_yawn_count (now e) (decide_fatigue (before_decision e s)) = update e s
    \<and> yawn_count (update e s) = 0
    \<and> fatigue_level (update e s) =
        (if 4 \<le> yawn_count (before_decision e s) then CRITICAL else WARNING)
    \<and> ((\<forall>e' \<in> set es. now e' - now e < 3) \<longrightarrow> updates es (update e s) = update e s)
    \<and> (analyzer ui = update e s
         \<and> (\<forall>f \<in> set fs. events f = [] \<and> now (tick f) - now e < 3) \<longrightarrow>
       yawn_count (analyzer (run fs ui)) = 0
       \<and> fatigue_level (analyzer (run fs ui)) = fatigue_level (update e s))"
proof (intro conjI impI)
  show "reset_yawn_count (now e) (decide_fatigue (before_decision e s)) = update e s"
    using ex by (simp add: executes_def update_def)
  show y0: "yawn_count (update e s) = 0"
    using ex fire by (simp add: update_yawn_count)
  show "fatigue_level (update e s) =
      (if 4 \<le> yawn_count (before_decision e s) then CRITICAL else WARNING)"
    using ex yc by (simp add: update_fatigue_level before_decision_yawn_count)
  have lu: "last_update (update e s) = now e"
    using ex by (rule update_last_update)
  {
    assume "\<forall>e' \<in> set es. now e' - now e < 3"
    then show "updates es (update e s) = update e s"
      by (intro updates_rate_limited) (simp add: lu)
  }
  {
    assume a: "analyzer ui = update e s
      \<and> (\<forall>f \<in> set fs. events f = [] \<and> now (tick f) - now e < 3)"
    then have "\<forall>f \<in> set fs. events f = [] \<and> now (tick f) - last_update (analyzer ui) < 3"
      by (simp add: lu)
    from quiet_run [OF this] a y0
    show "yawn_count (analyzer (run fs ui)) = 0"
      and "fatigue_level (analyzer (run fs ui)) = fatigue_level (update e s)"
      by simp_all
  }
qed

theorem C10_level_decided_before_reset_witness:
  "executes (env_at 601) ((init 0 0)\<lparr>yawn_count := 3\<rparr>)
   \<and> py_mod (now (env_at 601)) 600 < 3
   \<and> 3 \<le> yawn_count (before_decision (env_at 601) ((init 0 0)\<lparr>yawn_count := 3\<rparr>))
   \<and> yawn_count (update (env_at 601) ((init 0 0)\<lparr>yawn_count := 3\<rparr>)) = 0
   \<and> fatigue_level (update (env_at 601) ((init 0 0)\<lparr>yawn_count := 3\<rparr>)) = WARNING
   \<and> now (env_at 602) - now (env_at 601) < 3
   \<and> now (env_at 603) - now (env_at 601) < 3
   \<and> updates [env_at 602, env_at 603] (update (env_at 601) ((init 0 0)\<lparr>yawn_count := 3\<rparr>))
       = update (env_at 601) ((init 0 0)\<lparr>yawn_count := 3\<rparr>)"
proof -
  let ?s = "(init 0 0)\<lparr>yawn_count := 3\<rparr>"
  have ex: "executes (env_at 601) ?s"
    by (simp add: executes_def env_at_def init_def)
  have fire: "py_mod (now (env_at 601)) 600 < 3"
    by (simp add: py_mod_def env_at_def)
  have yc: "3 \<le> yawn_count (before_decision (env_at 601) ?s)"
    by (simp add: before_decision_yawn_count detect_yawn_def yawn_energy_def
        AUDIO_SAMPLE_RATE_def init_def)
  have q: "\<forall>e' \<in> set [env_at 602, env_at 603]. now e' - now (env_at 601) < 3"
    by (simp add: env_at_def)
  show ?thesis
    using C10_level_decided_before_reset [OF ex fire yc, of "[env_at 602, env_at 603]"]
      ex fire yc q
    by (simp add: before_decision_yawn_count detect_yawn_def yawn_energy_def
        AUDIO_SAMPLE_RATE_def init_def)
qed

end
